theory Spec2Isabelle
  imports Main
begin

section \<open>Values of the host language\<close>

text \<open>
  The results of database operations, the values that are thrown and the extra arguments
  of \<open>console.error\<close> are JavaScript values. Numbers are modelled by integers: the code
  under study only tests whether a result is an array or a non-null object, and never
  looks at the value of a number.
\<close>

datatype jsval =
    JUndefined
  | JNull
  | JBool bool
  | JNum int
  | JStr string
  | JArray "jsval list"
  | JObject "(string \<times> jsval) list"

text \<open>\<open>Array.isArray(v)\<close>.\<close>

fun Array_isArray :: "jsval \<Rightarrow> bool" where
  "Array_isArray (JArray xs) = True"
| "Array_isArray v = False"

text \<open>\<open>typeof v\<close>; \<open>null\<close> and arrays answer \<open>"object"\<close>.\<close>

fun typeof :: "jsval \<Rightarrow> string" where
  "typeof JUndefined = ''undefined''"
| "typeof JNull = ''object''"
| "typeof (JBool b) = ''boolean''"
| "typeof (JNum n) = ''number''"
| "typeof (JStr s) = ''string''"
| "typeof (JArray xs) = ''object''"
| "typeof (JObject fs) = ''object''"

text \<open>The truth value of \<open>v\<close> in a condition (the left operand of \<open>&&\<close>).\<close>

fun truthy :: "jsval \<Rightarrow> bool" where
  "truthy JUndefined = False"
| "truthy JNull = False"
| "truthy (JBool b) = b"
| "truthy (JNum n) = (n \<noteq> 0)"
| "truthy (JStr s) = (s \<noteq> [])"
| "truthy (JArray xs) = True"
| "truthy (JObject fs) = True"

text \<open>\<open>v.length\<close>, read in the source only where \<open>v\<close> is an array.\<close>

fun array_length :: "jsval \<Rightarrow> nat" where
  "array_length (JArray xs) = length xs"
| "array_length v = 0"

subsection \<open>Numbers in template strings\<close>

definition digit_char :: "nat \<Rightarrow> char" where
  "digit_char d = ''0123456789'' ! d"

fun show_nat :: "nat \<Rightarrow> string" where
  "show_nat n = (if n < 10 then [digit_char n] else show_nat (n div 10) @ [digit_char (n mod 10)])"

declare show_nat.simps [simp del]

definition show_int :: "int \<Rightarrow> string" where
  "show_int i = (if i < 0 then CHR ''-'' # show_nat (nat (- i)) else show_nat (nat i))"

section \<open>Environment and client options (lines 5--13)\<close>

type_synonym env = "string \<rightharpoonup> string"

text \<open>\<open>const isProd = process.env.NODE_ENV === "production"\<close>.\<close>

definition isProd :: "env \<Rightarrow> bool" where
  "isProd e = (e ''NODE_ENV'' = Some ''production'')"

datatype LogLevel = LogInfo | LogQuery | LogWarn | LogError

datatype ErrorFormat = Pretty | Colorless | Minimal

record PrismaClientOptions =
  log :: "LogLevel list"
  errorFormat :: ErrorFormat

text \<open>The functions below take the value of the module constant \<open>isProd\<close> as \<open>production\<close>.\<close>

definition prismaLog :: "bool \<Rightarrow> LogLevel list" where
  "prismaLog production = (if production then [LogWarn, LogError] else [LogInfo, LogWarn, LogError])"

definition prismaOptions :: "bool \<Rightarrow> PrismaClientOptions" where
  "prismaOptions production =
     \<lparr> log = prismaLog production, errorFormat = (if production then Minimal else Pretty) \<rparr>"

section \<open>The singleton (lines 15--26)\<close>

text \<open>
  A client object has an identity (\<open>ident\<close>, the allocation number of the object) and the
  options it was constructed with. The process-wide state is the global slot
  \<open>globalThis.__prisma__\<close> and the number of clients constructed so far.
\<close>

record PrismaClient =
  ident :: nat
  options :: PrismaClientOptions

record globals =
  prisma_slot :: "PrismaClient option"
  constructed :: nat

text \<open>\<open>new PrismaClient(prismaOptions)\<close>: a fresh object.\<close>

definition createBaseClient :: "bool \<Rightarrow> globals \<Rightarrow> PrismaClient \<times> globals" where
  "createBaseClient production g =
     (\<lparr> ident = constructed g, options = prismaOptions production \<rparr>,
      g\<lparr> constructed := Suc (constructed g) \<rparr>)"

text \<open>
  One evaluation of the module's top level:
  \<^verbatim>\<open>const base = globalThis.__prisma__ ?? createBaseClient();\<close>
  \<^verbatim>\<open>if (!isProd) globalThis.__prisma__ = base;\<close>
\<close>

definition module_init :: "bool \<Rightarrow> globals \<Rightarrow> PrismaClient \<times> globals" where
  "module_init production g =
     (case (case prisma_slot g of Some c \<Rightarrow> (c, g) | None \<Rightarrow> createBaseClient production g) of
        (base, g1) \<Rightarrow>
          (base, if \<not> production then g1\<lparr> prisma_slot := Some base \<rparr> else g1))"

section \<open>Effects: clock, console, failures\<close>

text \<open>
  What the code can observe and change outside its own variables: the clock read by
  \<open>Date.now()\<close>, the lines written by \<open>console.log\<close> and \<open>console.error\<close>, and the
  state of the database library (\<open>db\<close>, of any type). An awaited computation either
  returns a value (\<open>Inr\<close>) or throws one (\<open>Inl\<close>), and leaves a new world behind.
\<close>

datatype entry = Console_log string | Console_error string "jsval list"

record 'db world =
  clock :: int
  console :: "entry list"
  db :: 'db

type_synonym ('a, 'db) io = "'db world \<Rightarrow> (jsval + 'a) \<times> 'db world"

definition returnIO :: "'a \<Rightarrow> ('a, 'db) io" where
  "returnIO x w = (Inr x, w)"

definition throwIO :: "jsval \<Rightarrow> ('a, 'db) io" where
  "throwIO e w = (Inl e, w)"

text \<open>Sequencing: a failure of the first computation skips the rest.\<close>

definition bindIO :: "('a, 'db) io \<Rightarrow> ('a \<Rightarrow> ('b, 'db) io) \<Rightarrow> ('b, 'db) io" where
  "bindIO m f w = (case m w of (Inl e, w') \<Rightarrow> (Inl e, w') | (Inr x, w') \<Rightarrow> f x w')"

text \<open>\<open>try { m } catch (e) { h e }\<close>.\<close>

definition try_catch :: "('a, 'db) io \<Rightarrow> (jsval \<Rightarrow> ('a, 'db) io) \<Rightarrow> ('a, 'db) io" where
  "try_catch m h w = (case m w of (Inl e, w') \<Rightarrow> h e w' | (Inr x, w') \<Rightarrow> (Inr x, w'))"

definition Date_now :: "(int, 'db) io" where
  "Date_now w = (Inr (clock w), w)"

definition console_log :: "string \<Rightarrow> (unit, 'db) io" where
  "console_log s w = (Inr (), w\<lparr> console := console w @ [Console_log s] \<rparr>)"

definition console_error :: "string \<Rightarrow> jsval list \<Rightarrow> (unit, 'db) io" where
  "console_error s vs w = (Inr (), w\<lparr> console := console w @ [Console_error s vs] \<rparr>)"

section \<open>The query extension (lines 32--56)\<close>

text \<open>
  The size hint of the success line:
  \<^verbatim>\<open>Array.isArray(result) ? ` items=${result.length}` :\<close>
  \<^verbatim>\<open>result && typeof result === "object" ? " item=1" : ""\<close>
\<close>

definition size_hint :: "jsval \<Rightarrow> string" where
  "size_hint result =
     (if Array_isArray result then '' items='' @ show_nat (array_length result)
      else if truthy result \<and> typeof result = ''object'' then '' item=1''
      else '''')"

text \<open>
  The hook \<open>$allOperations\<close>. \<open>query\<close> is the underlying operation of the base client;
  the wrapped handle runs every operation of every model through this function.
\<close>

definition allOperations ::
  "bool \<Rightarrow> string \<Rightarrow> string \<Rightarrow> 'a \<Rightarrow> ('a \<Rightarrow> (jsval, 'db) io) \<Rightarrow> (jsval, 'db) io" where
  "allOperations production model operation args query =
     bindIO Date_now (\<lambda>start.
       try_catch
         (bindIO (query args) (\<lambda>result.
          bindIO Date_now (\<lambda>now1.
          bindIO
            (if \<not> production then
               console_log (''[prisma] '' @ model @ ''.'' @ operation @
                            '' ('' @ show_int (now1 - start) @ '' ms)'' @ size_hint result)
             else returnIO ())
            (\<lambda>_. returnIO result))))
         (\<lambda>e.
          bindIO Date_now (\<lambda>now2.
          bindIO
            (console_error (''[prisma] '' @ model @ ''.'' @ operation @
                            '' FAILED after '' @ show_int (now2 - start) @ '' ms'') [])
            (\<lambda>_. throwIO e))))"

section \<open>Shutdown (lines 58--80)\<close>

text \<open>
  \<open>disconnect\<close> is the behaviour of \<open>prisma.$disconnect()\<close>, a method of the library.
\<close>

definition gracefulExit :: "string \<Rightarrow> (unit, 'db) io \<Rightarrow> (unit, 'db) io" where
  "gracefulExit signal disconnect =
     try_catch
       (bindIO (console_log (''[prisma] Received '' @ signal @ ''. Closing DB connections...''))
          (\<lambda>_. disconnect))
       (\<lambda>err. console_error ''[prisma] Error during disconnect:'' [err])"

text \<open>
  The listeners of \<open>SIGINT\<close> and \<open>SIGTERM\<close>: \<open>() => void gracefulExit(...)\<close>. The result of
  the routine is discarded.
\<close>

definition on_SIGINT :: "(unit, 'db) io \<Rightarrow> (unit, 'db) io" where
  "on_SIGINT disconnect w = (Inr (), snd (gracefulExit ''SIGINT'' disconnect w))"

definition on_SIGTERM :: "(unit, 'db) io \<Rightarrow> (unit, 'db) io" where
  "on_SIGTERM disconnect w = (Inr (), snd (gracefulExit ''SIGTERM'' disconnect w))"

text \<open>
  The listener of the client's \<open>beforeExit\<close> event. The arrow of its message is U+21D2,
  three bytes in UTF-8.
\<close>

definition beforeExit_message :: string where
  "beforeExit_message =
     ''[prisma] beforeExit '' @ [CHR 0xE2, CHR 0x87, CHR 0x92] @
     '' disconnect''"

definition on_beforeExit :: "bool \<Rightarrow> (unit, 'db) io \<Rightarrow> (unit, 'db) io" where
  "on_beforeExit production disconnect =
     bindIO (if \<not> production then console_log beforeExit_message else returnIO ())
       (\<lambda>_. disconnect)"

section \<open>Stand-ins for the library in examples\<close>

text \<open>
  The operations of the library are parameters of the model. The examples below use an
  operation that takes \<open>t\<close> milliseconds and returns \<open>r\<close>, one that takes \<open>t\<close> milliseconds
  and throws \<open>e\<close>, and a database state that counts the calls of \<open>$disconnect\<close>.
\<close>

definition returning :: "jsval \<Rightarrow> int \<Rightarrow> unit \<Rightarrow> (jsval, nat) io" where
  "returning r t args w = (Inr r, w\<lparr> clock := clock w + t \<rparr>)"

definition throwing :: "jsval \<Rightarrow> int \<Rightarrow> unit \<Rightarrow> (jsval, nat) io" where
  "throwing e t args w = (Inl e, w\<lparr> clock := clock w + t \<rparr>)"

definition disconnect_ok :: "(unit, nat) io" where
  "disconnect_ok w = (Inr (), w\<lparr> db := Suc (db w) \<rparr>)"

definition disconnect_failing :: "(unit, nat) io" where
  "disconnect_failing w = (Inl (JStr ''ECONNRESET''), w\<lparr> db := Suc (db w) \<rparr>)"

definition world0 :: "nat world" where
  "world0 = \<lparr> clock = 1000, console = [], db = 0 \<rparr>"

definition globals0 :: globals where
  "globals0 = \<lparr> prisma_slot = None, constructed = 0 \<rparr>"

section \<open>Reading a decimal numeral back\<close>

text \<open>
  The inverse of \<open>show_nat\<close>, used to state that the digits written in a log line denote
  the number that was rendered.
\<close>

definition digit_value :: "char \<Rightarrow> nat" where
  "digit_value c = of_char c - 48"

definition read_nat :: "string \<Rightarrow> nat" where
  "read_nat s = foldl (\<lambda>a c. 10 * a + digit_value c) 0 s"

section \<open>Repeated initialisation\<close>

text \<open>
  The module's top level evaluated \<open>n\<close> times in one process (a hot reload re-evaluates
  it); the result lists the base client of each evaluation.
\<close>

fun reloads :: "bool \<Rightarrow> nat \<Rightarrow> globals \<Rightarrow> PrismaClient list \<times> globals" where
  "reloads production 0 g = ([], g)"
| "reloads production (Suc n) g =
     (case module_init production g of
        (base, g1) \<Rightarrow> (case reloads production n g1 of (bs, g2) \<Rightarrow> (base # bs, g2)))"

section \<open>What each operation computes\<close>

lemma lt_10_cases:
  "d < 10 \<Longrightarrow>
   d = 0 \<or> d = 1 \<or> d = 2 \<or> d = 3 \<or> d = 4 \<or> d = 5 \<or> d = 6 \<or> d = 7 \<or> d = 8 \<or> d = (9::nat)"
  by arith

lemma digit_value_digit_char: "d < 10 \<Longrightarrow> digit_value (digit_char d) = d"
  using lt_10_cases [of d] by (auto simp: digit_value_def digit_char_def)

lemma read_nat_snoc: "read_nat (s @ [c]) = 10 * read_nat s + digit_value c"
  by (simp add: read_nat_def)

lemma show_nat_small: "n < 10 \<Longrightarrow> show_nat n = [digit_char n]"
  by (simp add: show_nat.simps [of n])

lemma read_nat_show_nat: "read_nat (show_nat n) = n"
proof (induction n rule: show_nat.induct)
  case (1 n)
  show ?case
  proof (cases "n < 10")
    case True
    then show ?thesis
      by (simp add: show_nat_small read_nat_def digit_value_digit_char)
  next
    case False
    with 1 show ?thesis
      by (simp add: show_nat.simps [of n] read_nat_snoc digit_value_digit_char)
  qed
qed

lemma show_nat_inj:
  assumes "show_nat m = show_nat n"
  shows "m = n"
proof -
  have "read_nat (show_nat m) = read_nat (show_nat n)"
    using assms by (rule arg_cong)
  then show ?thesis
    by (simp only: read_nat_show_nat)
qed

lemma size_hint_cases:
  "size_hint result =
     (case result of
        JArray xs \<Rightarrow> '' items='' @ show_nat (length xs)
      | JObject fs \<Rightarrow> '' item=1''
      | _ \<Rightarrow> [])"
  by (cases result) (simp_all add: size_hint_def)

lemma allOperations_run:
  "allOperations production model operation args query w =
     (case query args w of
        (Inr result, w') \<Rightarrow>
          (Inr result,
           if production then w'
           else w'\<lparr> console := console w' @
                  [Console_log (''[prisma] '' @ model @ ''.'' @ operation @ '' ('' @
                     show_int (clock w' - clock w) @ '' ms)'' @ size_hint result)] \<rparr>)
      | (Inl e, w') \<Rightarrow>
          (Inl e,
           w'\<lparr> console := console w' @
                  [Console_error (''[prisma] '' @ model @ ''.'' @ operation @
                     '' FAILED after '' @ show_int (clock w' - clock w) @ '' ms'') []] \<rparr>))"
  by (simp add: allOperations_def bindIO_def try_catch_def Date_now_def console_log_def
      console_error_def returnIO_def throwIO_def split: prod.splits sum.splits)

lemma gracefulExit_run:
  "gracefulExit signal disconnect w =
     (case disconnect (w\<lparr> console := console w @
               [Console_log (''[prisma] Received '' @ signal @ ''. Closing DB connections...'')] \<rparr>) of
        (Inr u, w') \<Rightarrow> (Inr (), w')
      | (Inl err, w') \<Rightarrow>
          (Inr (), w'\<lparr> console := console w' @
                       [Console_error ''[prisma] Error during disconnect:'' [err]] \<rparr>))"
  by (simp add: gracefulExit_def bindIO_def try_catch_def console_log_def console_error_def
      split: prod.splits sum.splits)

lemma on_beforeExit_run:
  "on_beforeExit production disconnect w =
     disconnect (if production then w
                 else w\<lparr> console := console w @ [Console_log beforeExit_message] \<rparr>)"
  by (simp add: on_beforeExit_def bindIO_def console_log_def returnIO_def
      split: prod.splits sum.splits)

lemma module_init_run:
  "module_init production g =
     (case prisma_slot g of
        Some c \<Rightarrow> (c, if production then g else g\<lparr> prisma_slot := Some c \<rparr>)
      | None \<Rightarrow>
          (\<lparr> ident = constructed g, options = prismaOptions production \<rparr>,
           if production then g\<lparr> constructed := Suc (constructed g) \<rparr>
           else g\<lparr> constructed := Suc (constructed g),
                  prisma_slot := Some \<lparr> ident = constructed g,
                                         options = prismaOptions production \<rparr> \<rparr>))"
  by (simp add: module_init_def createBaseClient_def split: option.splits)

lemma show_12: "show_int 12 = ''12''"
  by (simp add: show_int_def show_nat.simps [of 12] show_nat_small digit_char_def)

lemma show_3: "show_nat (Suc (Suc (Suc 0))) = ''3''"
  by (simp add: show_nat_small digit_char_def)

section \<open>Construction options\<close>

text \<open>
  C7. The options of the base client depend on the production flag only: the log levels
  are warnings and errors in production and informational, warnings and errors otherwise;
  the error format is minimal in production and pretty (verbose) otherwise. A client
  constructed by \<open>createBaseClient\<close> carries exactly these options.
\<close>

theorem options_by_production_flag:
  "set (log (prismaOptions True)) = {LogWarn, LogError} \<and>
   set (log (prismaOptions False)) = {LogInfo, LogWarn, LogError} \<and>
   errorFormat (prismaOptions True) = Minimal \<and>
   errorFormat (prismaOptions False) = Pretty \<and>
   options (fst (createBaseClient production g)) = prismaOptions production \<and>
   options (fst (module_init (isProd e) \<lparr> prisma_slot = None, constructed = n \<rparr>)) =
     prismaOptions (e ''NODE_ENV'' = Some ''production'')"
  by (auto simp: prismaOptions_def prismaLog_def createBaseClient_def module_init_def isProd_def)

section \<open>The hook is observational\<close>

text \<open>
  C1. For every model, operation, arguments and behaviour of the underlying operation, in
  either mode, the hook returns exactly the value the underlying operation returned and
  throws exactly the value it threw; the clock and the state of the library are left as
  the underlying operation left them, so the wrapped handle differs from the unwrapped
  one in the console output only.
\<close>

theorem hook_is_observational:
  "fst (allOperations production model operation args query w) = fst (query args w) \<and>
   (snd (allOperations production model operation args query w))\<lparr> console := c \<rparr> =
     (snd (query args w))\<lparr> console := c \<rparr>"
  by (simp add: allOperations_run split: prod.splits sum.splits)

text \<open>
  C2. In non-production mode a successful operation appends exactly one \<open>console.log\<close>
  line to the console: the model, the operation, the elapsed milliseconds (the clock after
  the operation minus the clock before it) and a size hint, which is the length of the
  result when it is an array, \<open>item=1\<close> when it is a non-null object that is not an
  array, and empty for every other result (\<open>null\<close> and \<open>undefined\<close> among them). The
  result is returned as it is.
\<close>

theorem success_line_in_development:
  assumes "query args w = (Inr result, w')"
  shows "allOperations False model operation args query w =
           (Inr result,
            w'\<lparr> console := console w' @
               [Console_log (''[prisma] '' @ model @ ''.'' @ operation @ '' ('' @
                  show_int (clock w' - clock w) @ '' ms)'' @
                  (case result of
                     JArray xs \<Rightarrow> '' items='' @ show_nat (length xs)
                   | JObject fs \<Rightarrow> '' item=1''
                   | JUndefined \<Rightarrow> []
                   | JNull \<Rightarrow> []
                   | JBool b \<Rightarrow> []
                   | JNum n \<Rightarrow> []
                   | JStr t \<Rightarrow> []))] \<rparr>)"
  using assms by (simp add: allOperations_run size_hint_cases split: jsval.splits)

theorem success_line_in_development_witness:
  "allOperations False ''User'' ''findMany'' ()
      (returning (JArray [JNull, JNull, JNull]) 12) world0 =
     (Inr (JArray [JNull, JNull, JNull]),
      \<lparr> clock = 1012,
        console = [Console_log ''[prisma] User.findMany (12 ms) items=3''],
        db = 0 \<rparr>)"
proof -
  have run: "returning (JArray [JNull, JNull, JNull]) 12 () world0 =
               (Inr (JArray [JNull, JNull, JNull]), world0\<lparr> clock := 1012 \<rparr>)"
    by (simp add: returning_def world0_def)
  show ?thesis
    using success_line_in_development
      [of "returning (JArray [JNull, JNull, JNull]) 12" "()" world0
          "JArray [JNull, JNull, JNull]" "world0\<lparr> clock := 1012 \<rparr>"
          "''User''" "''findMany''", OF run]
    by (simp add: world0_def show_12 show_3)
qed

text \<open>
  C3. When the underlying operation throws, the hook appends exactly one \<open>console.error\<close>
  line with the model, the operation and the elapsed milliseconds, in production and in
  non-production mode alike, and throws the same value: the underlying operation has run
  once, and nothing else has changed.
\<close>

theorem failure_line_and_rethrow:
  assumes "query args w = (Inl e, w')"
  shows "allOperations production model operation args query w =
           (Inl e,
            w'\<lparr> console := console w' @
               [Console_error (''[prisma] '' @ model @ ''.'' @ operation @
                  '' FAILED after '' @ show_int (clock w' - clock w) @ '' ms'') []] \<rparr>)"
  using assms by (simp add: allOperations_run)

theorem failure_line_and_rethrow_witness:
  "allOperations True ''User'' ''create'' () (throwing (JStr ''P2002'') 12) world0 =
     (Inl (JStr ''P2002''),
      \<lparr> clock = 1012,
        console = [Console_error ''[prisma] User.create FAILED after 12 ms'' []],
        db = 0 \<rparr>) \<and>
   allOperations False ''User'' ''create'' () (throwing (JStr ''P2002'') 12) world0 =
     (Inl (JStr ''P2002''),
      \<lparr> clock = 1012,
        console = [Console_error ''[prisma] User.create FAILED after 12 ms'' []],
        db = 0 \<rparr>)"
proof -
  have run: "throwing (JStr ''P2002'') 12 () world0 =
               (Inl (JStr ''P2002''), world0\<lparr> clock := 1012 \<rparr>)"
    by (simp add: throwing_def world0_def)
  show ?thesis
    using failure_line_and_rethrow
      [of "throwing (JStr ''P2002'') 12" "()" world0 "JStr ''P2002''"
          "world0\<lparr> clock := 1012 \<rparr>" True "''User''" "''create''", OF run]
      failure_line_and_rethrow
      [of "throwing (JStr ''P2002'') 12" "()" world0 "JStr ''P2002''"
          "world0\<lparr> clock := 1012 \<rparr>" False "''User''" "''create''", OF run]
    by (simp add: world0_def show_12)
qed

text \<open>
  C9. In production mode a successful operation leaves the console as the underlying
  operation left it: the hook writes nothing. The success line exists in non-production
  mode only, and the returned value is the same in both modes.
\<close>

theorem production_success_is_silent:
  assumes "query args w = (Inr result, w')"
  shows "allOperations True model operation args query w = (Inr result, w') \<and>
         fst (allOperations False model operation args query w) = Inr result \<and>
         length (console (snd (allOperations False model operation args query w))) =
           Suc (length (console w'))"
  using assms by (simp add: allOperations_run)

theorem production_success_is_silent_witness:
  "allOperations True ''User'' ''findMany'' ()
      (returning (JArray [JNull, JNull, JNull]) 12) world0 =
     (Inr (JArray [JNull, JNull, JNull]), \<lparr> clock = 1012, console = [], db = 0 \<rparr>) \<and>
   fst (allOperations False ''User'' ''findMany'' ()
      (returning (JArray [JNull, JNull, JNull]) 12) world0) =
     Inr (JArray [JNull, JNull, JNull])"
proof -
  have run: "returning (JArray [JNull, JNull, JNull]) 12 () world0 =
               (Inr (JArray [JNull, JNull, JNull]), world0\<lparr> clock := 1012 \<rparr>)"
    by (simp add: returning_def world0_def)
  show ?thesis
    using production_success_is_silent
      [of "returning (JArray [JNull, JNull, JNull]) 12" "()" world0
          "JArray [JNull, JNull, JNull]" "world0\<lparr> clock := 1012 \<rparr>"
          "''User''" "''findMany''", OF run]
    by (simp add: world0_def)
qed

text \<open>
  C10. Two runs of the hook that differ in the production flag only, on the same
  operation from the same world, end with the same outcome (the same returned value or
  the same thrown value) and in worlds that differ in the console at most.
\<close>

theorem production_flag_noninterference:
  "fst (allOperations p1 model operation args query w) =
     fst (allOperations p2 model operation args query w) \<and>
   (snd (allOperations p1 model operation args query w))\<lparr> console := c \<rparr> =
     (snd (allOperations p2 model operation args query w))\<lparr> console := c \<rparr>"
  by (simp add: allOperations_run split: prod.splits sum.splits)

section \<open>Shutdown\<close>

text \<open>
  C4. The shutdown routine never throws, whatever \<open>$disconnect\<close> does. It first logs its
  intent, then runs \<open>$disconnect\<close> once, on the world that holds the intent line, and
  waits for it: the final world is the one \<open>$disconnect\<close> left, with one
  \<open>console.error\<close> entry carrying the thrown value appended when \<open>$disconnect\<close> threw.
  A second run of the routine, from the world the first one left and with any behaviour of
  \<open>$disconnect\<close> there, does not throw either.
\<close>

theorem gracefulExit_never_throws:
  "fst (gracefulExit signal disconnect w) = Inr () \<and>
   snd (gracefulExit signal disconnect w) =
     (case disconnect (w\<lparr> console := console w @
               [Console_log (''[prisma] Received '' @ signal @ ''. Closing DB connections...'')] \<rparr>) of
        (Inr u, w') \<Rightarrow> w'
      | (Inl err, w') \<Rightarrow>
          w'\<lparr> console := console w' @
                  [Console_error ''[prisma] Error during disconnect:'' [err]] \<rparr>) \<and>
   fst (gracefulExit signal2 disconnect2 (snd (gracefulExit signal disconnect w))) = Inr ()"
  by (simp add: gracefulExit_run split: prod.splits sum.splits)

text \<open>
  The routine on the counting stand-ins: each run calls \<open>$disconnect\<close> once, so two runs
  leave the counter at two, and a failing \<open>$disconnect\<close> is logged and swallowed.
\<close>

lemma gracefulExit_twice_example:
  "gracefulExit ''SIGTERM'' disconnect_failing
      (snd (gracefulExit ''SIGINT'' disconnect_ok world0)) =
     (Inr (),
      \<lparr> clock = 1000,
        console =
          [Console_log ''[prisma] Received SIGINT. Closing DB connections...'',
           Console_log ''[prisma] Received SIGTERM. Closing DB connections...'',
           Console_error ''[prisma] Error during disconnect:'' [JStr ''ECONNRESET'']],
        db = 2 \<rparr>)"
  by (simp add: gracefulExit_run disconnect_ok_def disconnect_failing_def world0_def)

text \<open>
  C5, as the specification states it, fails: with a \<open>$disconnect\<close> that throws, the
  listener of \<open>beforeExit\<close> throws the value on and logs no failure (and in production it
  logs nothing at all), while the listener of \<open>SIGINT\<close> logs its intent and the failure
  and returns normally.
\<close>

theorem beforeExit_is_not_the_shutdown_routine:
  "on_beforeExit True disconnect_failing world0 =
     (Inl (JStr ''ECONNRESET''), \<lparr> clock = 1000, console = [], db = 1 \<rparr>) \<and>
   on_beforeExit False disconnect_failing world0 =
     (Inl (JStr ''ECONNRESET''),
      \<lparr> clock = 1000, console = [Console_log beforeExit_message], db = 1 \<rparr>) \<and>
   on_SIGINT disconnect_failing world0 =
     (Inr (),
      \<lparr> clock = 1000,
        console =
          [Console_log ''[prisma] Received SIGINT. Closing DB connections...'',
           Console_error ''[prisma] Error during disconnect:'' [JStr ''ECONNRESET'']],
        db = 1 \<rparr>) \<and>
   on_beforeExit True disconnect_failing world0 \<noteq> on_SIGINT disconnect_failing world0 \<and>
   on_beforeExit False disconnect_failing world0 \<noteq> on_SIGINT disconnect_failing world0"
  by (simp add: on_beforeExit_run on_SIGINT_def gracefulExit_run disconnect_failing_def
      world0_def)

text \<open>
  C5, amended. The \<open>beforeExit\<close> notification has a listener of its own. It runs the same
  \<open>$disconnect\<close> as the signal path, once, and waits for it; before that it logs one fixed
  line in non-production mode and nothing in production; its outcome and final world are
  those of \<open>$disconnect\<close>, so a failure of \<open>$disconnect\<close> is thrown on and is not logged.
  The listeners of the interrupt and terminate signals both run the shutdown routine: the
  intent is logged, \<open>$disconnect\<close> runs once, a failure is logged and swallowed.
\<close>

theorem beforeExit_disconnects_without_catching:
  "on_beforeExit production disconnect w =
     disconnect (if production then w
                 else w\<lparr> console := console w @ [Console_log beforeExit_message] \<rparr>) \<and>
   on_SIGINT disconnect w =
     (case disconnect (w\<lparr> console := console w @
               [Console_log ''[prisma] Received SIGINT. Closing DB connections...''] \<rparr>) of
        (Inr u, w') \<Rightarrow> (Inr (), w')
      | (Inl err, w') \<Rightarrow>
          (Inr (), w'\<lparr> console := console w' @
                       [Console_error ''[prisma] Error during disconnect:'' [err]] \<rparr>)) \<and>
   on_SIGTERM disconnect w =
     (case disconnect (w\<lparr> console := console w @
               [Console_log ''[prisma] Received SIGTERM. Closing DB connections...''] \<rparr>) of
        (Inr u, w') \<Rightarrow> (Inr (), w')
      | (Inl err, w') \<Rightarrow>
          (Inr (), w'\<lparr> console := console w' @
                       [Console_error ''[prisma] Error during disconnect:'' [err]] \<rparr>))"
  by (simp add: on_beforeExit_run on_SIGINT_def on_SIGTERM_def gracefulExit_run
      split: prod.splits sum.splits)

section \<open>The singleton\<close>

text \<open>
  C6. In non-production mode, two initialisations in a row give the same base client: the
  first stores its client in the global slot, the second returns the stored client and
  changes nothing, so it constructs none. The first constructs a client only when the slot
  was empty, hence at most one construction in all.
\<close>

theorem development_init_reuses_instance:
  assumes "module_init False g = (b1, g1)" and "module_init False g1 = (b2, g2)"
  shows "b2 = b1 \<and> prisma_slot g1 = Some b1 \<and> g2 = g1 \<and>
         constructed g1 \<le> Suc (constructed g) \<and>
         b1 = (case prisma_slot g of
                 None \<Rightarrow> \<lparr> ident = constructed g, options = prismaOptions False \<rparr>
               | Some c \<Rightarrow> c)"
  using assms by (auto simp: module_init_run split: option.splits)

theorem development_init_reuses_instance_witness:
  "module_init False globals0 =
     (\<lparr> ident = 0, options = prismaOptions False \<rparr>,
      \<lparr> prisma_slot = Some \<lparr> ident = 0, options = prismaOptions False \<rparr>, constructed = 1 \<rparr>) \<and>
   module_init False
      \<lparr> prisma_slot = Some \<lparr> ident = 0, options = prismaOptions False \<rparr>, constructed = 1 \<rparr> =
     (\<lparr> ident = 0, options = prismaOptions False \<rparr>,
      \<lparr> prisma_slot = Some \<lparr> ident = 0, options = prismaOptions False \<rparr>, constructed = 1 \<rparr>)"
proof -
  let ?c = "\<lparr> ident = 0, options = prismaOptions False \<rparr>"
  let ?g = "\<lparr> prisma_slot = Some ?c, constructed = 1 \<rparr>"
  have first: "module_init False globals0 = (?c, ?g)"
    by (simp add: module_init_run globals0_def)
  have second: "module_init False ?g = (?c, ?g)"
    by (simp add: module_init_run)
  show ?thesis
    using development_init_reuses_instance [OF first second] first second
    by simp
qed

text \<open>
  The same over any number of initialisations: in non-production mode every one of them
  returns the client of the first, and at most one client is constructed.
\<close>

lemma slot_rewritten: "prisma_slot g = Some c \<Longrightarrow> g\<lparr> prisma_slot := Some c \<rparr> = g"
  by (cases g) simp

lemma reloads_stored:
  "prisma_slot g = Some c \<Longrightarrow>
   reloads False n g = (replicate n c, g)"
  by (induction n) (simp_all add: module_init_run slot_rewritten)

lemma reloads_development:
  "reloads False (Suc n) g = (bs, g') \<Longrightarrow>
   bs = replicate (Suc n) (hd bs) \<and> prisma_slot g' = Some (hd bs) \<and>
   constructed g' \<le> Suc (constructed g)"
  by (cases "prisma_slot g") (auto simp: module_init_run reloads_stored)

text \<open>
  C8. In production mode an initialisation never writes the global slot, but it reads it:
  a client found there is returned and nothing is constructed; with an empty slot a fresh
  client with the production options is constructed, and the slot stays empty.
\<close>

theorem production_init_reads_but_never_writes_slot:
  "prisma_slot (snd (module_init True g)) = prisma_slot g \<and>
   module_init True g =
     (case prisma_slot g of
        Some c \<Rightarrow> (c, g)
      | None \<Rightarrow>
          (\<lparr> ident = constructed g, options = prismaOptions True \<rparr>,
           g\<lparr> constructed := Suc (constructed g) \<rparr>))"
  by (simp add: module_init_run split: option.splits)

end
